theory Spec2Isabelle
  imports Complex_Main "HOL-Library.Sublist" "HOL-Library.List_Lexorder"
begin

section \<open>Python values the program handles\<close>

text \<open>
  A Python \<open>str\<close> is a sequence of Unicode code points, so a text is a list of code
  points (\<open>len\<close> is \<open>length\<close>). The arguments the program passes around are a \<open>str\<close>
  or \<open>None\<close> (what \<open>read_file\<close> returns when it fails). A Python \<open>float\<close> is modelled
  as a real number: the arithmetic below is exact, rounding of the machine format is
  not part of the model.
\<close>

type_synonym ustr = "nat list"

datatype pyval = PyNone | PyStr ustr

text \<open>The exceptions that can travel through the program.\<close>

datatype exn = ValueError string | IndexError | OtherException string

text \<open>\<open>not text\<close>: \<open>None\<close> and the empty string are falsy.\<close>

fun falsy :: "pyval \<Rightarrow> bool" where
  "falsy PyNone = True"
| "falsy (PyStr s) = (s = [])"

text \<open>\<open>str.isspace\<close> for one code point: the white space of \<open>str.split()\<close> and \<open>str.strip()\<close>.\<close>

definition isspace :: "nat \<Rightarrow> bool" where
  "isspace c \<longleftrightarrow>
     (9 \<le> c \<and> c \<le> 13) \<or> (28 \<le> c \<and> c \<le> 32) \<or> c = 133 \<or> c = 160 \<or> c = 5760 \<or>
     (8192 \<le> c \<and> c \<le> 8202) \<or> c = 8232 \<or> c = 8233 \<or> c = 8239 \<or> c = 8287 \<or> c = 12288"

text \<open>\<open>sep.join(words)\<close>.\<close>

fun py_join :: "ustr \<Rightarrow> ustr list \<Rightarrow> ustr" where
  "py_join sep [] = []"
| "py_join sep [w] = w"
| "py_join sep (w # v # ws) = w @ sep @ py_join sep (v # ws)"

text \<open>
  The maximal runs of elements with property \<open>P\<close>, in order; the second argument is
  the run read so far, reversed.
\<close>

fun runs_from :: "('a \<Rightarrow> bool) \<Rightarrow> 'a list \<Rightarrow> 'a list \<Rightarrow> 'a list list" where
  "runs_from P w [] = (if w = [] then [] else [rev w])"
| "runs_from P w (c # cs) =
     (if P c then runs_from P (c # w) cs
      else if w = [] then runs_from P [] cs else rev w # runs_from P [] cs)"

text \<open>
  \<open>s.split()\<close> with no argument: the maximal runs of code points that are not white
  space; no empty string is produced.
\<close>

definition py_split :: "ustr \<Rightarrow> ustr list" where
  "py_split s = runs_from (\<lambda>c. \<not> isspace c) [] s"

text \<open>\<open>needle in haystack\<close> for strings: a contiguous occurrence.\<close>

fun py_in :: "'a list \<Rightarrow> 'a list \<Rightarrow> bool" where
  "py_in xs [] = (xs = [])"
| "py_in xs (y # ys) = (prefix xs (y # ys) \<or> py_in xs ys)"

section \<open>The libraries the program calls\<close>

text \<open>
  The program imports jieba, scikit-learn and difflib; none of them is part of the
  repository. Their entry points are the fields of a record that every function of the
  program takes as its first argument, so that a statement proved for all \<open>L\<close> holds
  whatever the libraries compute:
  \<^item> \<open>lcut\<close> is \<open>jieba.lcut\<close>;
  \<^item> \<open>fit_transform\<close> is \<open>TfidfVectorizer().fit_transform\<close>, from the documents to the
    rows of the matrix, or the exception it raises;
  \<^item> \<open>cosine_similarity\<close> is \<open>sklearn.metrics.pairwise.cosine_similarity\<close>;
  \<^item> \<open>ratio\<close> is \<open>SequenceMatcher(None, a, b).ratio()\<close>.

  \<open>get_vectorizer\<close> of \<open>src/3223004469/main.py\<close> hands out one vectorizer for the whole
  process. \<open>fit_transform\<close> fits it anew from the documents of the call, so what it
  returns depends on its argument alone, and the shared object needs no state here.
\<close>

record libs =
  lcut :: "ustr \<Rightarrow> ustr list"
  fit_transform :: "ustr list \<Rightarrow> exn + real list list"
  cosine_similarity :: "real list list \<Rightarrow> real list list \<Rightarrow> exn + real list list"
  ratio :: "ustr \<Rightarrow> ustr \<Rightarrow> real"

section \<open>Segmentation\<close>

text \<open>
  \<open>preprocess_text\<close> of \<open>src/main.py\<close>, which calls the segmenter at every call. The
  suffix \<open>_v1\<close> marks the functions of \<open>src/main.py\<close>; the unsuffixed names are those of
  \<open>src/3223004469/main.py\<close>.
\<close>

fun preprocess_text_v1 :: "libs \<Rightarrow> pyval \<Rightarrow> ustr" where
  "preprocess_text_v1 L text =
     (if falsy text then [] else (case text of PyStr s \<Rightarrow> py_join [32] (lcut L s) | PyNone \<Rightarrow> []))"

text \<open>
  \<open>functools.lru_cache(maxsize)\<close> around a function of one argument. The cache is the
  list of its entries, the most recently used first. A hit returns the stored value and
  moves the entry to the front; a miss calls the function, stores the result at the front
  and drops the least recently used entry when the cache is over its capacity.
\<close>

type_synonym ('k, 'v) lru = "('k \<times> 'v) list"

definition lru_call :: "nat \<Rightarrow> ('k \<Rightarrow> 'v) \<Rightarrow> ('k, 'v) lru \<Rightarrow> 'k \<Rightarrow> 'v \<times> ('k, 'v) lru" where
  "lru_call maxsize f c k =
     (case map_of c k of
        Some v \<Rightarrow> (v, (k, v) # filter (\<lambda>e. fst e \<noteq> k) c)
      | None \<Rightarrow> (let v = f k in (v, take maxsize ((k, v) # c))))"

text \<open>The function that \<open>src/3223004469/main.py\<close> decorates: the body of \<open>cached_preprocess_text\<close>.\<close>

fun cached_preprocess_text_body :: "libs \<Rightarrow> pyval \<Rightarrow> ustr" where
  "cached_preprocess_text_body L text =
     (if falsy text then [] else (case text of PyStr s \<Rightarrow> py_join [32] (lcut L s) | PyNone \<Rightarrow> []))"

definition cached_preprocess_text ::
  "libs \<Rightarrow> (pyval, ustr) lru \<Rightarrow> pyval \<Rightarrow> ustr \<times> (pyval, ustr) lru" where
  "cached_preprocess_text L c text = lru_call 1000 (cached_preprocess_text_body L) c text"

definition preprocess_text ::
  "libs \<Rightarrow> (pyval, ustr) lru \<Rightarrow> pyval \<Rightarrow> ustr \<times> (pyval, ustr) lru" where
  "preprocess_text L c text = cached_preprocess_text L c text"

section \<open>Similarity of one pair\<close>

text \<open>Sequencing of computations that may raise: the first exception ends the rest.\<close>

definition then_do :: "exn + 'a \<Rightarrow> ('a \<Rightarrow> exn + 'b) \<Rightarrow> exn + 'b" where
  "then_do m f = (case m of Inl e \<Rightarrow> Inl e | Inr x \<Rightarrow> f x)"

text \<open>\<open>m[0][0]\<close> on a matrix: \<open>IndexError\<close> when there is no such entry.\<close>

definition item00 :: "real list list \<Rightarrow> exn + real" where
  "item00 m =
     (case m of [] \<Rightarrow> Inl IndexError
      | r # _ \<Rightarrow> (case r of [] \<Rightarrow> Inl IndexError | x # _ \<Rightarrow> Inr x))"

text \<open>
  The vector path, for the rows \<open>i\<close> and \<open>j\<close> of a fitted matrix:
  \<open>cosine_similarity(m[i:i+1], m[j:j+1])[0][0]\<close>.
\<close>

definition cosine_of_rows :: "libs \<Rightarrow> real list list \<Rightarrow> nat \<Rightarrow> nat \<Rightarrow> exn + real" where
  "cosine_of_rows L m i j =
     then_do (cosine_similarity L (take 1 (drop i m)) (take 1 (drop j m))) item00"

definition vector_score :: "libs \<Rightarrow> ustr \<Rightarrow> ustr \<Rightarrow> exn + real" where
  "vector_score L original_processed copied_processed =
     then_do (fit_transform L [original_processed, copied_processed])
       (\<lambda>tfidf_matrix. cosine_of_rows L tfidf_matrix 0 1)"

text \<open>\<open>calculate_similarity\<close> of \<open>src/main.py\<close>: the two empty-text rules, then the vector path.\<close>

definition calculate_similarity_v1 :: "libs \<Rightarrow> pyval \<Rightarrow> pyval \<Rightarrow> exn + real" where
  "calculate_similarity_v1 L original_text copied_text =
     (let original_processed = preprocess_text_v1 L original_text;
          copied_processed = preprocess_text_v1 L copied_text
      in if original_processed = [] \<and> copied_processed = [] then Inr 1
         else if original_processed = [] \<or> copied_processed = [] then Inr 0
         else vector_score L original_processed copied_processed)"

text \<open>
  \<open>SequenceMatcher(None, original_text, copied_text).ratio()\<close> on the raw arguments; the
  library needs sequences, so \<open>None\<close> raises \<open>TypeError\<close>.
\<close>

fun sequence_ratio :: "libs \<Rightarrow> pyval \<Rightarrow> pyval \<Rightarrow> exn + real" where
  "sequence_ratio L (PyStr a) (PyStr b) = Inr (ratio L a b)"
| "sequence_ratio L _ _ = Inl (OtherException ''TypeError'')"

text \<open>
  \<open>calculate_similarity\<close> of \<open>src/3223004469/main.py\<close>, after its first two lines have
  segmented both texts (\<open>similarity_of\<close>), and as a whole with the cache it reads and
  updates.
\<close>

definition similarity_of :: "libs \<Rightarrow> pyval \<Rightarrow> pyval \<Rightarrow> ustr \<Rightarrow> ustr \<Rightarrow> exn + real" where
  "similarity_of L original_text copied_text original_processed copied_processed =
     (if original_processed = [] \<and> copied_processed = [] then Inr 1
      else if original_processed = [] \<or> copied_processed = [] then Inr 0
      else
        let original_words = py_split original_processed;
            copied_words = py_split copied_processed
        in if original_words = [] \<and> copied_words = [] then
             Inr (if original_text = copied_text then 1 else 0)
           else if original_words = [] \<or> copied_words = [] then Inr 0
           else if length original_words = 1 \<and> length copied_words = 1 then
             (if original_words ! 0 = copied_words ! 0 then Inr 1
              else sequence_ratio L original_text copied_text)
           else
             (case vector_score L original_processed copied_processed of
                Inr similarity_score \<Rightarrow> Inr similarity_score
              | Inl (ValueError msg) \<Rightarrow>
                  if py_in ''empty vocabulary'' msg
                  then sequence_ratio L original_text copied_text
                  else Inl (ValueError msg)
              | Inl e \<Rightarrow> Inl e))"

definition calculate_similarity ::
  "libs \<Rightarrow> (pyval, ustr) lru \<Rightarrow> pyval \<Rightarrow> pyval \<Rightarrow> (exn + real) \<times> (pyval, ustr) lru" where
  "calculate_similarity L c original_text copied_text =
     (let (original_processed, c1) = preprocess_text L c original_text;
          (copied_processed, c2) = preprocess_text L c1 copied_text
      in (similarity_of L original_text copied_text original_processed copied_processed, c2))"

section \<open>Similarity of a batch\<close>

fun preprocess_all ::
  "libs \<Rightarrow> (pyval, ustr) lru \<Rightarrow> (pyval \<times> pyval) list \<Rightarrow> ustr list \<times> (pyval, ustr) lru" where
  "preprocess_all L c [] = ([], c)"
| "preprocess_all L c ((original, copied) # text_pairs) =
     (let (p1, c1) = preprocess_text L c original;
          (p2, c2) = preprocess_text L c1 copied;
          (rest, c3) = preprocess_all L c2 text_pairs
      in (p1 # p2 # rest, c3))"

text \<open>The loop \<open>for i in range(0, n, 2)\<close> of \<open>calculate_similarity_batch\<close>, from \<open>i\<close> on.\<close>

function batch_loop :: "libs \<Rightarrow> real list list \<Rightarrow> nat \<Rightarrow> nat \<Rightarrow> exn + real list" where
  "batch_loop L m n i =
     (if i < n then
        (if i + 1 < n then
           then_do (cosine_of_rows L m i (i + 1))
             (\<lambda>similarity. then_do (batch_loop L m n (i + 2))
                (\<lambda>similarities. Inr (similarity # similarities)))
         else batch_loop L m n (i + 2))
      else Inr [])"
  by pat_completeness auto
termination
  by (relation "measure (\<lambda>(L, m, n, i). n - i)") auto

declare batch_loop.simps [simp del]

definition calculate_similarity_batch ::
  "libs \<Rightarrow> (pyval, ustr) lru \<Rightarrow> (pyval \<times> pyval) list \<Rightarrow>
     (exn + real list) \<times> (pyval, ustr) lru" where
  "calculate_similarity_batch L c text_pairs =
     (if text_pairs = [] then (Inr [], c)
      else
        let (all_texts, c') = preprocess_all L c text_pairs
        in (then_do (fit_transform L all_texts)
              (\<lambda>tfidf_matrix. batch_loop L tfidf_matrix (length all_texts) 0), c'))"

section \<open>Files, output and the command line\<close>

text \<open>
  What a path holds: text that decodes as UTF-8, bytes that do not, or something that
  cannot be opened for reading at all (a directory, a file without permission).
\<close>

datatype fnode = Utf8File ustr | BadEncoding | Unreadable

text \<open>The lines the program prints, by the statement that prints them.\<close>

datatype msg =
    MsgFileNotFound ustr
  | MsgNotUtf8 ustr
  | MsgReadError ustr
  | MsgWriteError ustr
  | MsgUsageHead
  | MsgUsageLine
  | MsgReadFailed
  | MsgDone real

text \<open>
  The world outside the process: the files by path, the paths that cannot be opened for
  writing, and the lines printed so far (oldest first).
\<close>

record world =
  files :: "ustr \<rightharpoonup> fnode"
  unwritable :: "ustr set"
  stdout :: "msg list"

definition print :: "msg \<Rightarrow> world \<Rightarrow> world" where
  "print m w = w\<lparr>stdout := stdout w @ [m]\<rparr>"

text \<open>\<open>s.strip()\<close>.\<close>

definition py_strip :: "ustr \<Rightarrow> ustr" where
  "py_strip s = rev (dropWhile isspace (rev (dropWhile isspace s)))"

text \<open>\<open>read_file\<close>, the same in both files.\<close>

definition read_file :: "world \<Rightarrow> ustr \<Rightarrow> pyval \<times> world" where
  "read_file w file_path =
     (case files w file_path of
        Some (Utf8File content) \<Rightarrow> (PyStr (py_strip content), w)
      | None \<Rightarrow> (PyNone, print (MsgFileNotFound file_path) w)
      | Some BadEncoding \<Rightarrow> (PyNone, print (MsgNotUtf8 file_path) w)
      | Some Unreadable \<Rightarrow> (PyNone, print (MsgReadError file_path) w))"

text \<open>
  \<open>round(x, 2)\<close>: the nearest whole number of hundredths, a tie going to the even one.
\<close>

definition round_half_even :: "real \<Rightarrow> int" where
  "round_half_even x =
     (let f = \<lfloor>x\<rfloor>; d = x - of_int f
      in if d < 1 / 2 then f else if 1 / 2 < d then f + 1 else if even f then f else f + 1)"

definition py_round2 :: "real \<Rightarrow> real" where
  "py_round2 x = of_int (round_half_even (x * 100)) / 100"

text \<open>
  \<open>str(x)\<close> for a float that is a whole number of hundredths: the integer part, a
  point, and the decimals without a trailing zero, but at least one (\<open>1.0\<close>, \<open>0.7\<close>,
  \<open>0.75\<close>). Python changes to the exponent notation from \<open>1e16\<close> on and knows a negative
  zero; the scores this program prints are far from both.
\<close>

definition digit_char :: "nat \<Rightarrow> char" where
  "digit_char d = ''0123456789'' ! (d mod 10)"

fun py_str_nat :: "nat \<Rightarrow> string" where
  "py_str_nat n =
     (if n < 10 then [digit_char n] else py_str_nat (n div 10) @ [digit_char (n mod 10)])"

declare py_str_nat.simps [simp del]

definition py_str_float :: "real \<Rightarrow> string" where
  "py_str_float x =
     (let h = nat \<lfloor>\<bar>x\<bar> * 100\<rfloor>; whole = h div 100; cents = h mod 100
      in (if x < 0 then [CHR ''-''] else []) @ py_str_nat whole @ [CHR ''.''] @
         (if cents mod 10 = 0 then [digit_char (cents div 10)]
          else [digit_char (cents div 10), digit_char (cents mod 10)]))"

text \<open>What \<open>write_result\<close> writes for a score: the formatter of the specification.\<close>

definition format_score :: "real \<Rightarrow> string" where
  "format_score similarity = (let result = py_round2 similarity in py_str_float result)"

text \<open>\<open>write_result\<close>, the same in both files: any failure to write is printed, not raised.\<close>

definition write_result :: "world \<Rightarrow> ustr \<Rightarrow> real \<Rightarrow> world" where
  "write_result w output_path similarity =
     (if output_path \<in> unwritable w then print (MsgWriteError output_path) w
      else w\<lparr>files := (files w)(output_path \<mapsto>
             Utf8File (map of_char (format_score similarity)))\<rparr>)"

text \<open>\<open>xs[i]\<close>: \<open>IndexError\<close> out of range.\<close>

definition py_index :: "'a list \<Rightarrow> nat \<Rightarrow> exn + 'a" where
  "py_index xs i = (if i < length xs then Inr (xs ! i) else Inl IndexError)"

text \<open>
  \<open>main\<close> of \<open>src/3223004469/main.py\<close>. \<open>argv\<close> is \<open>sys.argv\<close>, the name of the script
  first. The result is the exception that ends the process, if any.
\<close>

definition main ::
  "libs \<Rightarrow> (pyval, ustr) lru \<Rightarrow> ustr list \<Rightarrow> world \<Rightarrow>
     (exn + unit) \<times> (pyval, ustr) lru \<times> world" where
  "main L c argv w =
     (if length argv \<noteq> 4 then (Inr (), c, print MsgUsageLine (print MsgUsageHead w))
      else
        let original_path = argv ! 1; copied_path = argv ! 2; output_path = argv ! 3;
            (original_text, w1) = read_file w original_path;
            (copied_text, w2) = read_file w1 copied_path
        in if original_text = PyNone \<or> copied_text = PyNone
           then (Inr (), c, print MsgReadFailed w2)
           else (case calculate_similarity L c original_text copied_text of
                   (Inl e, c') \<Rightarrow> (Inl e, c', w2)
                 | (Inr similarity, c') \<Rightarrow>
                     (Inr (), c', print (MsgDone similarity)
                                    (write_result w2 output_path similarity))))"

text \<open>
  \<open>main\<close> of \<open>src/main.py\<close>: the same two checks, but neither of them returns.
\<close>

definition main_v1 :: "libs \<Rightarrow> ustr list \<Rightarrow> world \<Rightarrow> (exn + unit) \<times> world" where
  "main_v1 L argv w =
     (let w0 = (if length argv \<noteq> 4 then print MsgUsageLine (print MsgUsageHead w) else w)
      in case then_do (py_index argv 1) (\<lambda>original_path.
              then_do (py_index argv 2) (\<lambda>copied_path.
              then_do (py_index argv 3) (\<lambda>output_path.
                Inr (original_path, copied_path, output_path)))) of
           Inl e \<Rightarrow> (Inl e, w0)
         | Inr (original_path, copied_path, output_path) \<Rightarrow>
             let (original_text, w1) = read_file w0 original_path;
                 (copied_text, w2) = read_file w1 copied_path;
                 w3 = (if original_text = PyNone \<or> copied_text = PyNone
                       then print MsgReadFailed w2 else w2)
             in (case calculate_similarity_v1 L original_text copied_text of
                   Inl e \<Rightarrow> (Inl e, w3)
                 | Inr similarity \<Rightarrow> (Inr (), write_result w3 output_path similarity)))"

section \<open>What the libraries compute\<close>

text \<open>
  Modelled from the spec: scikit-learn and difflib are libraries, no file of the
  repository holds them, and the statements about numbers (a score of 1 for equal texts,
  every score between 0 and 1) depend on what they compute. The definitions of this
  section are the specification's TF-IDF, cosine similarity and sequence ratio
  (glossary, sections 4.2 and 4.3), written out with the formulas the libraries document
  for the options the program uses, in exact arithmetic. jieba's segmentation stays a
  parameter throughout, and so do the two Unicode tables the vectorizer consults
  (\<open>str.lower\<close> and the word characters of the pattern \<open>\w\<close>).
\<close>

subsection \<open>TfidfVectorizer with its default options\<close>

text \<open>
  Modelled from the spec: the vectorizer's default tokenizing rules, which filter out
  single characters. The default analyzer: lower case, then the matches of the token pattern
  \<open>(?u)\b\w\w+\b\<close>, which are the maximal runs of word characters of length two or more.
\<close>

definition analyze :: "(ustr \<Rightarrow> ustr) \<Rightarrow> (nat \<Rightarrow> bool) \<Rightarrow> ustr \<Rightarrow> ustr list" where
  "analyze lower is_word doc = filter (\<lambda>t. 2 \<le> length t) (runs_from is_word [] (lower doc))"

text \<open>The vocabulary of a corpus, given the tokens of each document: sorted, each term once.\<close>

definition vocabulary :: "ustr list list \<Rightarrow> ustr list" where
  "vocabulary tokenized = sort (remdups (concat tokenized))"

text \<open>The number of documents a term occurs in.\<close>

definition doc_freq :: "ustr list list \<Rightarrow> ustr \<Rightarrow> nat" where
  "doc_freq tokenized t = length (filter (\<lambda>toks. t \<in> set toks) tokenized)"

text \<open>The smoothed inverse document frequency: \<open>ln((1 + n) / (1 + df)) + 1\<close>.\<close>

definition idf :: "nat \<Rightarrow> nat \<Rightarrow> real" where
  "idf n df = ln ((1 + real n) / (1 + real df)) + 1"

definition dot :: "real list \<Rightarrow> real list \<Rightarrow> real" where
  "dot x y = sum_list (map (\<lambda>(u, v). u * v) (zip x y))"

text \<open>\<open>normalize(X, norm='l2')\<close> on one row: a row of norm zero is left as it is.\<close>

definition l2_normalize :: "real list \<Rightarrow> real list" where
  "l2_normalize x = (let norm = sqrt (dot x x) in if norm = 0 then x else map (\<lambda>v. v / norm) x)"

definition tfidf_row :: "ustr list list \<Rightarrow> ustr list \<Rightarrow> ustr list \<Rightarrow> real list" where
  "tfidf_row tokenized vocab toks =
     l2_normalize
       (map (\<lambda>t. real (count_list toks t) * idf (length tokenized) (doc_freq tokenized t)) vocab)"

text \<open>
  Modelled from the spec: \<open>TfidfVectorizer().fit_transform\<close>. The vocabulary is built
  from the documents of the call only; an empty one is a \<open>ValueError\<close>. Each row weighs
  the count of every term by its inverse document frequency and is normalized.
\<close>

definition sk_fit_transform ::
  "(ustr \<Rightarrow> ustr) \<Rightarrow> (nat \<Rightarrow> bool) \<Rightarrow> ustr list \<Rightarrow> exn + real list list" where
  "sk_fit_transform lower is_word raw_documents =
     (let tokenized = map (analyze lower is_word) raw_documents;
          vocab = vocabulary tokenized
      in if vocab = []
         then Inl (ValueError ''empty vocabulary; perhaps the documents only contain stop words'')
         else Inr (map (tfidf_row tokenized vocab) tokenized))"

subsection \<open>cosine_similarity\<close>

text \<open>
  Modelled from the spec: the cosine of the angle between two vectors. Both arguments
  are checked (at least one row each, the same number of columns), their rows are
  normalized, and the result is the matrix of the dot products.
\<close>

definition sk_cosine_similarity :: "real list list \<Rightarrow> real list list \<Rightarrow> exn + real list list" where
  "sk_cosine_similarity X Y =
     (if X = [] \<or> Y = [] then Inl (ValueError ''Found array with 0 sample(s)'')
      else if length (hd X) \<noteq> length (hd Y)
      then Inl (ValueError ''Incompatible dimension for X and Y matrices'')
      else Inr (map (\<lambda>x. map (\<lambda>y. dot (l2_normalize x) (l2_normalize y)) Y) X))"

subsection \<open>SequenceMatcher(None, a, b).ratio()\<close>

text \<open>
  Modelled from the spec: the sequence ratio, the total length of the matching blocks
  of two strings over their combined length, with the blocks that difflib finds.
  With no junk function and \<open>autojunk\<close> left on, an element of \<open>b\<close> is popular when \<open>b\<close>
  has at least 200 elements and the element makes up more than 1\% of them (plus one);
  \<open>b2j\<close> lists the positions of every element of \<open>b\<close> that is not popular.
\<close>

definition popular :: "'a list \<Rightarrow> 'a \<Rightarrow> bool" where
  "popular b x \<longleftrightarrow> 200 \<le> length b \<and> length b div 100 + 1 < count_list b x"

definition b2j :: "'a list \<Rightarrow> 'a \<Rightarrow> nat list" where
  "b2j b x = (if popular b x then [] else filter (\<lambda>j. b ! j = x) [0..<length b])"

text \<open>
  The inner loop of \<open>find_longest_match\<close> for one \<open>i\<close>: \<open>j2len\<close> holds, for the row before,
  the length of the match ending at each \<open>j\<close> (0 where the dictionary has no entry), and
  the loop builds the same for row \<open>i\<close> while it keeps the best block seen. The positions
  are ascending, so skipping \<open>j < blo\<close> and stopping at the first \<open>j \<ge> bhi\<close> visits the
  positions of the window.
\<close>

definition match_step ::
  "(nat \<Rightarrow> nat) \<Rightarrow> nat \<Rightarrow> (nat \<Rightarrow> nat) \<times> nat \<times> nat \<times> nat \<Rightarrow> nat \<Rightarrow>
     (nat \<Rightarrow> nat) \<times> nat \<times> nat \<times> nat" where
  "match_step j2len i st j =
     (case st of (newj2len, besti, bestj, bestsize) \<Rightarrow>
        let k = (if j = 0 then 0 else j2len (j - 1)) + 1
        in (newj2len(j := k),
            if bestsize < k then (i + 1 - k, j + 1 - k, k) else (besti, bestj, bestsize)))"

definition match_row ::
  "'a list \<Rightarrow> 'a list \<Rightarrow> nat \<Rightarrow> nat \<Rightarrow> (nat \<Rightarrow> nat) \<times> nat \<times> nat \<times> nat \<Rightarrow> nat \<Rightarrow>
     (nat \<Rightarrow> nat) \<times> nat \<times> nat \<times> nat" where
  "match_row a b blo bhi st i =
     (case st of (j2len, best) \<Rightarrow>
        foldl (match_step j2len i) (\<lambda>_. 0, best)
          (filter (\<lambda>j. blo \<le> j \<and> j < bhi) (b2j b (a ! i))))"

text \<open>The two loops that extend the best block over equal neighbours, to the left and to the right.\<close>

function extend_left :: "'a list \<Rightarrow> 'a list \<Rightarrow> nat \<Rightarrow> nat \<Rightarrow> nat \<times> nat \<times> nat \<Rightarrow> nat \<times> nat \<times> nat" where
  "extend_left a b alo blo (besti, bestj, bestsize) =
     (if alo < besti \<and> blo < bestj \<and> a ! (besti - 1) = b ! (bestj - 1)
      then extend_left a b alo blo (besti - 1, bestj - 1, bestsize + 1)
      else (besti, bestj, bestsize))"
  by pat_completeness auto
termination
  by (relation "measure (\<lambda>(a, b, alo, blo, besti, bestj, bestsize). besti)") auto

function extend_right :: "'a list \<Rightarrow> 'a list \<Rightarrow> nat \<Rightarrow> nat \<Rightarrow> nat \<times> nat \<times> nat \<Rightarrow> nat \<times> nat \<times> nat" where
  "extend_right a b ahi bhi (besti, bestj, bestsize) =
     (if besti + bestsize < ahi \<and> bestj + bestsize < bhi \<and>
         a ! (besti + bestsize) = b ! (bestj + bestsize)
      then extend_right a b ahi bhi (besti, bestj, bestsize + 1)
      else (besti, bestj, bestsize))"
  by pat_completeness auto
termination
  by (relation "measure (\<lambda>(a, b, ahi, bhi, besti, bestj, bestsize). ahi - (besti + bestsize))") auto

declare extend_left.simps [simp del] extend_right.simps [simp del]

text \<open>
  \<open>find_longest_match(alo, ahi, blo, bhi)\<close>. Its last two loops extend the block over
  junk; without a junk function there is none, and they do nothing.
\<close>

definition find_longest_match ::
  "'a list \<Rightarrow> 'a list \<Rightarrow> nat \<Rightarrow> nat \<Rightarrow> nat \<Rightarrow> nat \<Rightarrow> nat \<times> nat \<times> nat" where
  "find_longest_match a b alo ahi blo bhi =
     (let (j2len, best) = foldl (match_row a b blo bhi) (\<lambda>_. 0, alo, blo, 0) [alo..<ahi]
      in extend_right a b ahi bhi (extend_left a b alo blo best))"

text \<open>
  Where the block that \<open>find_longest_match\<close> returns lies: inside the two windows, at
  their lower corners when it is empty. The recursion of \<open>get_matching_blocks\<close>
  terminates because of it.
\<close>

definition block_ok :: "nat \<Rightarrow> nat \<Rightarrow> nat \<Rightarrow> nat \<Rightarrow> nat \<times> nat \<times> nat \<Rightarrow> bool" where
  "block_ok alo ahi blo bhi m =
     (case m of (i, j, k) \<Rightarrow>
        alo \<le> i \<and> blo \<le> j \<and> (k = 0 \<longrightarrow> i = alo \<and> j = blo) \<and>
        (0 < k \<longrightarrow> i + k \<le> ahi \<and> j + k \<le> bhi))"

definition row_ok :: "nat \<Rightarrow> nat \<Rightarrow> nat \<Rightarrow> (nat \<Rightarrow> nat) \<Rightarrow> bool" where
  "row_ok n blo bhi j2len =
     (\<forall>j. j2len j \<le> n \<and> j2len j \<le> j + 1 - blo \<and> (0 < j2len j \<longrightarrow> j < bhi))"

lemma match_step_ok:
  assumes "row_ok n blo bhi j2len" "row_ok (Suc n) blo bhi newj2len"
    "block_ok alo (alo + Suc n) blo bhi best" "blo \<le> j" "j < bhi"
    "match_step j2len (alo + n) (newj2len, best) j = (newj2len', best')"
  shows "row_ok (Suc n) blo bhi newj2len' \<and> block_ok alo (alo + Suc n) blo bhi best'"
proof -
  obtain bi bj bs where best: "best = (bi, bj, bs)" by (cases best) auto
  define k where "k = (if j = 0 then 0 else j2len (j - 1)) + 1"
  have k1: "k \<le> Suc n" using assms(1) by (auto simp: k_def row_ok_def)
  have k2: "k \<le> j + 1 - blo"
  proof (cases "j = 0")
    case True then show ?thesis using assms(4) by (simp add: k_def)
  next
    case False
    have "j2len (j - 1) \<le> (j - 1) + 1 - blo" using assms(1) by (auto simp: row_ok_def)
    then show ?thesis using False assms(4) by (simp add: k_def)
  qed
  have k0: "0 < k" by (simp add: k_def)
  have new: "newj2len' = newj2len(j := k)"
    and b': "best' = (if bs < k then (alo + n + 1 - k, j + 1 - k, k) else (bi, bj, bs))"
    using assms(6) by (auto simp: match_step_def best k_def Let_def)
  have "row_ok (Suc n) blo bhi newj2len'"
    using assms(2) k1 k2 assms(5) by (auto simp: new row_ok_def)
  moreover have "block_ok alo (alo + Suc n) blo bhi best'"
    using assms(3) k0 k1 k2 assms(4,5) by (auto simp: b' best block_ok_def)
  ultimately show ?thesis by simp
qed

lemma match_fold_ok:
  assumes "row_ok n blo bhi j2len" "\<forall>j \<in> set js. blo \<le> j \<and> j < bhi"
  shows "row_ok (Suc n) blo bhi newj2len \<Longrightarrow> block_ok alo (alo + Suc n) blo bhi best \<Longrightarrow>
         foldl (match_step j2len (alo + n)) (newj2len, best) js = (r, best') \<Longrightarrow>
         row_ok (Suc n) blo bhi r \<and> block_ok alo (alo + Suc n) blo bhi best'"
  using assms(2)
proof (induction js arbitrary: newj2len best)
  case Nil
  then show ?case by simp
next
  case (Cons j js)
  obtain n1 b1 where s: "match_step j2len (alo + n) (newj2len, best) j = (n1, b1)"
    by (cases "match_step j2len (alo + n) (newj2len, best) j") auto
  have ok: "row_ok (Suc n) blo bhi n1 \<and> block_ok alo (alo + Suc n) blo bhi b1"
    using match_step_ok[OF assms(1) Cons.prems(1) Cons.prems(2) _ _ s] Cons.prems(4) by simp
  show ?case
    using Cons.IH[of n1 b1] ok Cons.prems(3,4) s by simp
qed

lemma block_ok_mono: "block_ok alo ahi blo bhi m \<Longrightarrow> ahi \<le> ahi' \<Longrightarrow> block_ok alo ahi' blo bhi m"
  by (auto simp: block_ok_def split: prod.splits)

lemma match_row_ok:
  assumes "row_ok n blo bhi j2len" "block_ok alo (alo + n) blo bhi best"
    "match_row a b blo bhi (j2len, best) (alo + n) = (r, best')"
  shows "row_ok (Suc n) blo bhi r \<and> block_ok alo (alo + Suc n) blo bhi best'"
proof -
  have z: "row_ok (Suc n) blo bhi (\<lambda>_. 0)" by (simp add: row_ok_def)
  have b: "block_ok alo (alo + Suc n) blo bhi best"
    using block_ok_mono[OF assms(2)] by simp
  show ?thesis
    using match_fold_ok[OF assms(1) _ z b, of "filter (\<lambda>j. blo \<le> j \<and> j < bhi) (b2j b (a ! (alo + n)))" r best']
      assms(3) by (simp add: match_row_def)
qed

lemma match_rows_ok:
  "foldl (match_row a b blo bhi) (\<lambda>_. 0, alo, blo, 0) [alo..<alo + n] = (r, best) \<Longrightarrow>
   row_ok n blo bhi r \<and> block_ok alo (alo + n) blo bhi best"
proof (induction n arbitrary: r best)
  case 0
  then show ?case by (auto simp: row_ok_def block_ok_def)
next
  case (Suc n)
  obtain r0 b0 where s: "foldl (match_row a b blo bhi) (\<lambda>_. 0, alo, blo, 0) [alo..<alo + n] = (r0, b0)"
    by (cases "foldl (match_row a b blo bhi) (\<lambda>_. 0, alo, blo, 0) [alo..<alo + n]") auto
  have "match_row a b blo bhi (r0, b0) (alo + n) = (r, best)"
    using Suc.prems s by simp
  then show ?case using match_row_ok Suc.IH[OF s] by blast
qed

lemma extend_left_ok:
  "block_ok alo ahi blo bhi m \<Longrightarrow> block_ok alo ahi blo bhi (extend_left a b alo blo m)"
proof (induction a b alo blo m rule: extend_left.induct)
  case (1 a b alo blo besti bestj bestsize)
  show ?case
  proof (cases "alo < besti \<and> blo < bestj \<and> a ! (besti - 1) = b ! (bestj - 1)")
    case True
    have "block_ok alo ahi blo bhi (besti - 1, bestj - 1, bestsize + 1)"
      using True "1.prems" by (auto simp: block_ok_def)
    then show ?thesis using "1.IH" True by (subst extend_left.simps) simp
  next
    case False
    show ?thesis using "1.prems" by (subst extend_left.simps) (simp only: if_not_P[OF False])
  qed
qed

lemma extend_right_ok:
  "block_ok alo ahi blo bhi m \<Longrightarrow> block_ok alo ahi blo bhi (extend_right a b ahi bhi m)"
proof (induction a b ahi bhi m rule: extend_right.induct)
  case (1 a b ahi bhi besti bestj bestsize)
  show ?case
  proof (cases "besti + bestsize < ahi \<and> bestj + bestsize < bhi \<and>
         a ! (besti + bestsize) = b ! (bestj + bestsize)")
    case True
    have "block_ok alo ahi blo bhi (besti, bestj, bestsize + 1)"
      using True "1.prems" by (auto simp: block_ok_def)
    then show ?thesis using "1.IH" True by (subst extend_right.simps) simp
  next
    case False
    show ?thesis using "1.prems" by (subst extend_right.simps) (simp only: if_not_P[OF False])
  qed
qed

lemma find_longest_match_ok:
  "block_ok alo ahi blo bhi (find_longest_match a b alo ahi blo bhi)"
proof -
  obtain r best where s:
    "foldl (match_row a b blo bhi) (\<lambda>_. 0, alo, blo, 0) [alo..<alo + (ahi - alo)] = (r, best)"
    by (cases "foldl (match_row a b blo bhi) (\<lambda>_. 0, alo, blo, 0) [alo..<alo + (ahi - alo)]") auto
  have up: "[alo..<ahi] = [alo..<alo + (ahi - alo)]" by (cases "alo \<le> ahi") auto
  have "block_ok alo (alo + (ahi - alo)) blo bhi best" using match_rows_ok[OF s] by simp
  then have "block_ok alo ahi blo bhi best"
    by (cases "alo \<le> ahi") (auto simp: block_ok_def)
  then have "block_ok alo ahi blo bhi (extend_right a b ahi bhi (extend_left a b alo blo best))"
    by (intro extend_right_ok extend_left_ok)
  then show ?thesis using s up by (simp add: find_longest_match_def)
qed

text \<open>
  \<open>get_matching_blocks\<close>: the longest block of the window, then the blocks to its left
  and to its right. The library keeps the pending windows on a stack, sorts the blocks
  at the end, merges adjacent ones and appends an empty block; none of that changes the
  lengths that \<open>ratio\<close> sums.
\<close>

function matching_blocks ::
  "'a list \<Rightarrow> 'a list \<Rightarrow> nat \<Rightarrow> nat \<Rightarrow> nat \<Rightarrow> nat \<Rightarrow> (nat \<times> nat \<times> nat) list" where
  "matching_blocks a b alo ahi blo bhi =
     (case find_longest_match a b alo ahi blo bhi of (i, j, k) \<Rightarrow>
        if k = 0 then []
        else (i, j, k) #
             (if alo < i \<and> blo < j then matching_blocks a b alo i blo j else []) @
             (if i + k < ahi \<and> j + k < bhi then matching_blocks a b (i + k) ahi (j + k) bhi
              else []))"
  by pat_completeness auto
termination
proof (relation "measure (\<lambda>(a, b, alo, ahi, blo, bhi). ahi - alo)")
  show "wf (measure (\<lambda>(a, b, alo, ahi, blo, bhi). ahi - alo))" by simp
next
  fix a b :: "'a list" and alo ahi blo bhi i y j k
  assume "(i, y) = find_longest_match a b alo ahi blo bhi" "(j, k) = y" "k \<noteq> 0"
    "alo < i \<and> blo < j"
  then have "block_ok alo ahi blo bhi (i, j, k)"
    using find_longest_match_ok[of alo ahi blo bhi a b] by simp
  then show "((a, b, alo, i, blo, j), (a, b, alo, ahi, blo, bhi))
      \<in> measure (\<lambda>(a, b, alo, ahi, blo, bhi). ahi - alo)"
    using \<open>k \<noteq> 0\<close> by (auto simp: block_ok_def)
next
  fix a b :: "'a list" and alo ahi blo bhi i y j k
  assume "(i, y) = find_longest_match a b alo ahi blo bhi" "(j, k) = y" "k \<noteq> 0"
    "i + k < ahi \<and> j + k < bhi"
  then have "block_ok alo ahi blo bhi (i, j, k)"
    using find_longest_match_ok[of alo ahi blo bhi a b] by simp
  then show "((a, b, i + k, ahi, j + k, bhi), (a, b, alo, ahi, blo, bhi))
      \<in> measure (\<lambda>(a, b, alo, ahi, blo, bhi). ahi - alo)"
    using \<open>k \<noteq> 0\<close> \<open>i + k < ahi \<and> j + k < bhi\<close> by (auto simp: block_ok_def)
qed

declare matching_blocks.simps [simp del]

text \<open>
  Modelled from the spec: \<open>ratio\<close>, twice the matched length over the length of both
  sequences; 1 when both are empty.
\<close>

definition SequenceMatcher_ratio :: "'a list \<Rightarrow> 'a list \<Rightarrow> real" where
  "SequenceMatcher_ratio a b =
     (let matches = sum_list (map (\<lambda>(i, j, k). k) (matching_blocks a b 0 (length a) 0 (length b)));
          len = length a + length b
      in if len \<noteq> 0 then 2 * real matches / real len else 1)"

text \<open>
  The libraries as the program finds them installed: jieba's segmentation \<open>seg\<close> and the
  Unicode tables are parameters, the rest is the model above.
\<close>

definition installed :: "(ustr \<Rightarrow> ustr list) \<Rightarrow> (ustr \<Rightarrow> ustr) \<Rightarrow> (nat \<Rightarrow> bool) \<Rightarrow> libs" where
  "installed seg lower is_word =
     \<lparr>lcut = seg, fit_transform = sk_fit_transform lower is_word,
      cosine_similarity = sk_cosine_similarity, ratio = SequenceMatcher_ratio\<rparr>"

section \<open>Notions the statements use\<close>

text \<open>
  A cache is sound when every entry holds what the decorated function returns for its
  key. \<open>cache_after L texts\<close> is the cache of a process that started with an empty cache
  and has segmented \<open>texts\<close>, in this order: the caches a run can reach.
\<close>

definition cache_ok :: "libs \<Rightarrow> (pyval, ustr) lru \<Rightarrow> bool" where
  "cache_ok L c = (\<forall>e \<in> set c. snd e = cached_preprocess_text_body L (fst e))"

definition cache_after :: "libs \<Rightarrow> pyval list \<Rightarrow> (pyval, ustr) lru" where
  "cache_after L texts = foldl (\<lambda>c text. snd (cached_preprocess_text L c text)) [] texts"

text \<open>The documents of a batch: both segmented texts of every pair, in order.\<close>

definition batch_texts :: "libs \<Rightarrow> (pyval \<times> pyval) list \<Rightarrow> ustr list" where
  "batch_texts L text_pairs =
     concat (map (\<lambda>(original, copied).
       [cached_preprocess_text_body L original, cached_preprocess_text_body L copied]) text_pairs)"





text \<open>
  An instance of the parameters for the examples: a segmenter that returns the text as
  one token, no case folding, and every code point but white space a word character.
\<close>

definition sample_libs :: libs where
  "sample_libs = installed (\<lambda>s. [s]) (\<lambda>s. s) (\<lambda>c. \<not> isspace c)"

section \<open>The segmentation cache\<close>

lemma lru_call_value:
  assumes "\<forall>e \<in> set c. snd e = f (fst e)"
  shows "fst (lru_call n f c k) = f k"
proof (cases "map_of c k")
  case None
  then show ?thesis by (simp add: lru_call_def Let_def)
next
  case (Some v)
  then have "(k, v) \<in> set c" by (rule map_of_SomeD)
  then have "v = f k" using assms by force
  then show ?thesis using Some by (simp add: lru_call_def)
qed

lemma lru_call_entries:
  assumes "\<forall>e \<in> set c. snd e = f (fst e)"
  shows "\<forall>e \<in> set (snd (lru_call n f c k)). snd e = f (fst e)"
proof (cases "map_of c k")
  case None
  have "set (take n ((k, f k) # c)) \<subseteq> insert (k, f k) (set c)"
    using set_take_subset[of n "(k, f k) # c"] by simp
  then show ?thesis using assms None by (auto simp: lru_call_def Let_def)
next
  case (Some v)
  then have "(k, v) \<in> set c" by (rule map_of_SomeD)
  then have "v = f k" using assms by force
  then show ?thesis using Some assms by (auto simp: lru_call_def)
qed

lemma lru_call_length:
  assumes "length c \<le> n"
  shows "length (snd (lru_call n f c k)) \<le> n"
proof (cases "map_of c k")
  case None
  then show ?thesis by (simp add: lru_call_def Let_def)
next
  case (Some v)
  then have "(k, v) \<in> set c" by (rule map_of_SomeD)
  then have "length (filter (\<lambda>e. fst e \<noteq> k) c) < length c"
    by (intro length_filter_less[of "(k, v)"]) auto
  then show ?thesis using Some assms by (simp add: lru_call_def)
qed

lemma body_eq_v1: "cached_preprocess_text_body L text = preprocess_text_v1 L text"
  by simp

lemma preprocess_text_value:
  "cache_ok L c \<Longrightarrow> fst (preprocess_text L c text) = cached_preprocess_text_body L text"
  unfolding preprocess_text_def cached_preprocess_text_def cache_ok_def
  by (rule lru_call_value)

lemma preprocess_text_cache_ok:
  "cache_ok L c \<Longrightarrow> cache_ok L (snd (preprocess_text L c text))"
  unfolding preprocess_text_def cached_preprocess_text_def cache_ok_def
  by (rule lru_call_entries)

lemma cache_ok_Nil: "cache_ok L []"
  by (simp add: cache_ok_def)

lemma cache_after_ok: "cache_ok L (cache_after L texts)"
proof -
  have "cache_ok L c \<Longrightarrow> cache_ok L (foldl (\<lambda>c text. snd (cached_preprocess_text L c text)) c texts)"
    for c
  proof (induction texts arbitrary: c)
    case Nil
    then show ?case by simp
  next
    case (Cons t ts)
    have "cache_ok L (snd (cached_preprocess_text L c t))"
      using preprocess_text_cache_ok[OF Cons.prems, of t] by (simp add: preprocess_text_def)
    then show ?case using Cons.IH by simp
  qed
  then show ?thesis using cache_ok_Nil by (simp add: cache_after_def)
qed

lemma cache_after_length: "length (cache_after L texts) \<le> 1000"
proof -
  have "length c \<le> 1000 \<Longrightarrow>
        length (foldl (\<lambda>c text. snd (cached_preprocess_text L c text)) c texts) \<le> 1000" for c
  proof (induction texts arbitrary: c)
    case Nil
    then show ?case by simp
  next
    case (Cons t ts)
    have "length (snd (cached_preprocess_text L c t)) \<le> 1000"
      unfolding cached_preprocess_text_def using Cons.prems by (rule lru_call_length)
    then show ?case using Cons.IH by simp
  qed
  then show ?thesis by (simp add: cache_after_def)
qed

lemma calculate_similarity_value:
  assumes "cache_ok L c"
  shows "fst (calculate_similarity L c a b) =
         similarity_of L a b (cached_preprocess_text_body L a) (cached_preprocess_text_body L b)"
proof -
  obtain p1 c1 where 1: "preprocess_text L c a = (p1, c1)" by (cases "preprocess_text L c a") auto
  obtain p2 c2 where 2: "preprocess_text L c1 b = (p2, c2)" by (cases "preprocess_text L c1 b") auto
  have p1: "p1 = cached_preprocess_text_body L a" using preprocess_text_value[OF assms, of a] 1 by simp
  have "cache_ok L c1" using preprocess_text_cache_ok[OF assms, of a] 1 by simp
  then have p2: "p2 = cached_preprocess_text_body L b" using preprocess_text_value[of L c1 b] 2 by simp
  show ?thesis using 1 2 p1 p2 by (simp add: calculate_similarity_def)
qed

lemma calculate_similarity_cache_ok:
  assumes "cache_ok L c"
  shows "cache_ok L (snd (calculate_similarity L c a b))"
proof -
  obtain p1 c1 where 1: "preprocess_text L c a = (p1, c1)" by (cases "preprocess_text L c a") auto
  obtain p2 c2 where 2: "preprocess_text L c1 b = (p2, c2)" by (cases "preprocess_text L c1 b") auto
  have "cache_ok L c1" using preprocess_text_cache_ok[OF assms, of a] 1 by simp
  then have "cache_ok L c2" using preprocess_text_cache_ok[of L c1 b] 2 by simp
  then show ?thesis using 1 2 by (simp add: calculate_similarity_def)
qed

text \<open>
  Claim C6. Whatever texts the process has segmented before (so whether the call hits the
  cache, misses it, or comes after entries were evicted at the capacity of 1000), the
  cached segmenter of \<open>src/3223004469/main.py\<close> returns for every text what the uncached
  \<open>preprocess_text\<close> of \<open>src/main.py\<close> returns; the cache it leaves is again a reachable
  one, and it never holds more than 1000 entries.
\<close>

theorem cached_segmenter_refines_uncached:
  "fst (cached_preprocess_text L (cache_after L texts) text) = preprocess_text_v1 L text \<and>
   cache_after L (texts @ [text]) = snd (cached_preprocess_text L (cache_after L texts) text) \<and>
   length (cache_after L texts) \<le> 1000"
proof -
  have "fst (preprocess_text L (cache_after L texts) text) = cached_preprocess_text_body L text"
    using cache_after_ok by (rule preprocess_text_value)
  then show ?thesis
    using cache_after_length[of L texts] by (simp add: preprocess_text_def cache_after_def)
qed

section \<open>The rules for empty texts\<close>

text \<open>
  Claim C4. When both segmented strings are empty the score is 1. When both are not
  empty but neither holds a token (\<open>split()\<close> returns no word), the score is 1 if the
  raw arguments are equal and 0 otherwise.
\<close>

theorem both_empty_rule:
  assumes "cache_ok L c"
  shows "(cached_preprocess_text_body L a = [] \<and> cached_preprocess_text_body L b = [] \<longrightarrow>
            fst (calculate_similarity L c a b) = Inr 1) \<and>
         (cached_preprocess_text_body L a \<noteq> [] \<and> cached_preprocess_text_body L b \<noteq> [] \<and>
          py_split (cached_preprocess_text_body L a) = [] \<and>
          py_split (cached_preprocess_text_body L b) = [] \<longrightarrow>
            fst (calculate_similarity L c a b) = Inr (if a = b then 1 else 0))"
  unfolding calculate_similarity_value[OF assms]
  by (simp add: similarity_of_def Let_def)

lemma sample_lcut: "lcut sample_libs s = [s]"
  by (simp add: sample_libs_def installed_def)

theorem both_empty_rule_witness:
  "fst (calculate_similarity sample_libs [] PyNone (PyStr [])) = Inr 1 \<and>
   fst (calculate_similarity sample_libs [] (PyStr [32]) (PyStr [32, 32])) = Inr 0 \<and>
   fst (calculate_similarity sample_libs [] (PyStr [32]) (PyStr [32])) = Inr 1"
  using both_empty_rule[OF cache_ok_Nil, of sample_libs PyNone "PyStr []"]
    both_empty_rule[OF cache_ok_Nil, of sample_libs "PyStr [32]" "PyStr [32, 32]"]
    both_empty_rule[OF cache_ok_Nil, of sample_libs "PyStr [32]" "PyStr [32]"]
  by (simp add: sample_lcut py_split_def isspace_def)

section \<open>The single-token rule and the fallback after a failed vectorization\<close>

lemma py_split_Nil: "py_split [] = []"
  by (simp add: py_split_def)

text \<open>
  The single-token rule of \<open>src/3223004469/main.py\<close>: when both segmented texts hold
  exactly one word, the score is 1 for equal words and otherwise the sequence ratio of the
  raw texts; neither the vectorizer nor the cosine is consulted.
\<close>

lemma single_token_rule:
  assumes "cache_ok L c"
    and "py_split (cached_preprocess_text_body L (PyStr x)) = [u]"
    and "py_split (cached_preprocess_text_body L (PyStr y)) = [v]"
  shows "fst (calculate_similarity L c (PyStr x) (PyStr y)) =
         (if u = v then Inr 1 else Inr (ratio L x y))"
proof -
  have "cached_preprocess_text_body L (PyStr x) \<noteq> []" "cached_preprocess_text_body L (PyStr y) \<noteq> []"
    using assms(2,3) py_split_Nil by force+
  then show ?thesis
    unfolding calculate_similarity_value[OF assms(1)]
    using assms(2,3) by (simp add: similarity_of_def Let_def)
qed

lemma sample_fit_transform: "fit_transform sample_libs = sk_fit_transform (\<lambda>s. s) (\<lambda>c. \<not> isspace c)"
  by (simp add: sample_libs_def installed_def)

lemma sample_ratio: "ratio sample_libs = SequenceMatcher_ratio"
  by (simp add: sample_libs_def installed_def)

lemma vector_score_fit_error:
  "fit_transform L [p, q] = Inl e \<Longrightarrow> vector_score L p q = Inl e"
  by (simp add: vector_score_def then_do_def)

lemma sk_fit_transform_empty:
  "vocabulary (map (analyze lower is_word) docs) = [] \<Longrightarrow>
   sk_fit_transform lower is_word docs =
     Inl (ValueError ''empty vocabulary; perhaps the documents only contain stop words'')"
  by (simp add: sk_fit_transform_def Let_def)

lemma empty_vocabulary_msg:
  "py_in ''empty vocabulary'' ''empty vocabulary; perhaps the documents only contain stop words''"
  by simp

text \<open>
  Claim C2. On the vector path (both segmented texts hold a word, and not exactly one
  word each): when \<open>fit_transform\<close> raises a \<open>ValueError\<close> whose message contains
  \<open>empty vocabulary\<close>, the score is the sequence ratio of the raw texts; when it raises
  anything else, that exception is the result of the call. With scikit-learn's
  vectorizer, an empty vocabulary is such a \<open>ValueError\<close>.
\<close>

theorem vectorization_failure:
  assumes "cache_ok L c"
    and "pa = cached_preprocess_text_body L (PyStr x)"
    and "pb = cached_preprocess_text_body L (PyStr y)"
    and "py_split pa \<noteq> []" and "py_split pb \<noteq> []"
    and "\<not> (length (py_split pa) = 1 \<and> length (py_split pb) = 1)"
  shows "(\<forall>msg. fit_transform L [pa, pb] = Inl (ValueError msg) \<and> py_in ''empty vocabulary'' msg \<longrightarrow>
            fst (calculate_similarity L c (PyStr x) (PyStr y)) = Inr (ratio L x y)) \<and>
         (\<forall>e. fit_transform L [pa, pb] = Inl e \<and>
              (\<forall>msg. e = ValueError msg \<longrightarrow> \<not> py_in ''empty vocabulary'' msg) \<longrightarrow>
            fst (calculate_similarity L c (PyStr x) (PyStr y)) = Inl e) \<and>
         (fit_transform L = sk_fit_transform lower is_word \<and>
          vocabulary (map (analyze lower is_word) [pa, pb]) = [] \<longrightarrow>
            fst (calculate_similarity L c (PyStr x) (PyStr y)) = Inr (ratio L x y))"
proof -
  have ne: "pa \<noteq> []" "pb \<noteq> []" using assms(4,5) py_split_Nil by force+
  have val: "fst (calculate_similarity L c (PyStr x) (PyStr y)) =
      (case vector_score L pa pb of
         Inr s \<Rightarrow> Inr s
       | Inl (ValueError msg) \<Rightarrow>
           if py_in ''empty vocabulary'' msg then Inr (ratio L x y) else Inl (ValueError msg)
       | Inl e \<Rightarrow> Inl e)"
    unfolding calculate_similarity_value[OF assms(1)] assms(2,3)[symmetric]
    using ne assms(4,5,6) by (auto simp add: similarity_of_def Let_def split: sum.splits exn.splits)
  have 1: "fst (calculate_similarity L c (PyStr x) (PyStr y)) = Inr (ratio L x y)"
    if "fit_transform L [pa, pb] = Inl (ValueError msg)" "py_in ''empty vocabulary'' msg" for msg
    using that val vector_score_fit_error[OF that(1)] by simp
  have 2: "fst (calculate_similarity L c (PyStr x) (PyStr y)) = Inl e"
    if "fit_transform L [pa, pb] = Inl e"
      "\<forall>msg. e = ValueError msg \<longrightarrow> \<not> py_in ''empty vocabulary'' msg" for e
    using that val vector_score_fit_error[OF that(1)] by (cases e) auto
  have 3: "fst (calculate_similarity L c (PyStr x) (PyStr y)) = Inr (ratio L x y)"
    if "fit_transform L = sk_fit_transform lower is_word"
      "vocabulary (map (analyze lower is_word) [pa, pb]) = []"
    using 1[OF _ empty_vocabulary_msg] sk_fit_transform_empty[OF that(2)] that(1) by simp
  show ?thesis using 1 2 3 by blast
qed

theorem vectorization_failure_witness:
  "fst (calculate_similarity sample_libs [] (PyStr [97, 32, 98]) (PyStr [99, 32, 100])) =
     Inr (SequenceMatcher_ratio [97::nat, 32, 98] [99, 32, 100]) \<and>
   fst (calculate_similarity (sample_libs\<lparr>fit_transform := \<lambda>_. Inl (OtherException ''MemoryError'')\<rparr>) []
          (PyStr [97, 32, 98]) (PyStr [99, 32, 100])) = Inl (OtherException ''MemoryError'')"
  using vectorization_failure[OF cache_ok_Nil refl refl, of sample_libs "[97, 32, 98]" "[99, 32, 100]"
      "\<lambda>s. s" "\<lambda>c. \<not> isspace c"]
    vectorization_failure[OF cache_ok_Nil refl refl,
      of "sample_libs\<lparr>fit_transform := \<lambda>_. Inl (OtherException ''MemoryError'')\<rparr>"
      "[97, 32, 98]" "[99, 32, 100]" "\<lambda>s. s" "\<lambda>c. \<not> isspace c"]
  by (simp add: sample_lcut sample_fit_transform sample_ratio py_split_def isspace_def
      analyze_def vocabulary_def)

section \<open>The batch\<close>

lemma preprocess_all_value:
  "cache_ok L c \<Longrightarrow> fst (preprocess_all L c text_pairs) = batch_texts L text_pairs"
proof (induction text_pairs arbitrary: c)
  case Nil
  then show ?case by (simp add: batch_texts_def)
next
  case (Cons p ps)
  obtain original copied where p: "p = (original, copied)" by (cases p) auto
  obtain p1 c1 where 1: "preprocess_text L c original = (p1, c1)"
    by (cases "preprocess_text L c original") auto
  obtain p2 c2 where 2: "preprocess_text L c1 copied = (p2, c2)"
    by (cases "preprocess_text L c1 copied") auto
  obtain rest c3 where 3: "preprocess_all L c2 ps = (rest, c3)"
    by (cases "preprocess_all L c2 ps") auto
  have v1: "p1 = cached_preprocess_text_body L original"
    using preprocess_text_value[OF Cons.prems, of original] 1 by simp
  have ok1: "cache_ok L c1" using preprocess_text_cache_ok[OF Cons.prems, of original] 1 by simp
  have v2: "p2 = cached_preprocess_text_body L copied"
    using preprocess_text_value[OF ok1, of copied] 2 by simp
  have ok2: "cache_ok L c2" using preprocess_text_cache_ok[OF ok1, of copied] 2 by simp
  have "rest = batch_texts L ps" using Cons.IH[OF ok2] 3 by simp
  then show ?case using p 1 2 3 v1 v2 by (simp add: batch_texts_def)
qed

lemma batch_value:
  assumes "cache_ok L c" "text_pairs \<noteq> []"
  shows "fst (calculate_similarity_batch L c text_pairs) =
         then_do (fit_transform L (batch_texts L text_pairs))
           (\<lambda>m. batch_loop L m (length (batch_texts L text_pairs)) 0)"
proof -
  obtain all_texts c' where a: "preprocess_all L c text_pairs = (all_texts, c')"
    by (cases "preprocess_all L c text_pairs") auto
  have "all_texts = batch_texts L text_pairs" using preprocess_all_value[OF assms(1), of text_pairs] a by simp
  then show ?thesis using a assms(2) by (simp add: calculate_similarity_batch_def)
qed

lemma body_ratio_update [simp]:
  "cached_preprocess_text_body (L\<lparr>ratio := r\<rparr>) = cached_preprocess_text_body L"
  by (rule ext) (simp split: pyval.splits)

lemma preprocess_text_ratio_update [simp]:
  "preprocess_text (L\<lparr>ratio := r\<rparr>) = preprocess_text L"
  by (intro ext) (simp add: preprocess_text_def cached_preprocess_text_def)

lemma preprocess_all_ratio_update [simp]:
  "preprocess_all (L\<lparr>ratio := r\<rparr>) c text_pairs = preprocess_all L c text_pairs"
  by (induction text_pairs arbitrary: c) (auto split: prod.splits)

lemma cosine_of_rows_ratio_update [simp]:
  "cosine_of_rows (L\<lparr>ratio := r\<rparr>) m i j = cosine_of_rows L m i j"
  by (simp add: cosine_of_rows_def)

lemma batch_loop_ratio_update [simp]:
  "batch_loop (L\<lparr>ratio := r\<rparr>) m n i = batch_loop L m n i"
proof (induction "n - i" arbitrary: i rule: less_induct)
  case less
  have step: "batch_loop (L\<lparr>ratio := r\<rparr>) m n (i + 2) = batch_loop L m n (i + 2)" if "i < n"
    using less[of "i + 2"] that by simp
  show ?case
    unfolding batch_loop.simps[of L m n i] batch_loop.simps[of "L\<lparr>ratio := r\<rparr>" m n i]
    using step by simp
qed

text \<open>
  Claim C3, as the code has it. The empty batch returns the empty list without calling
  the vectorizer. For a batch that is not empty, an exception of \<open>fit_transform\<close> (with
  scikit-learn's vectorizer: a \<open>ValueError\<close> when the whole batch has an empty
  vocabulary) is the result of the call; and no result of the batch depends on the
  sequence ratio: there is no fallback for a pair.
\<close>

theorem batch_failure_propagates:
  assumes "cache_ok L c"
  shows "calculate_similarity_batch L c [] = (Inr [], c) \<and>
         (text_pairs \<noteq> [] \<and> fit_transform L (batch_texts L text_pairs) = Inl e \<longrightarrow>
            fst (calculate_similarity_batch L c text_pairs) = Inl e) \<and>
         (text_pairs \<noteq> [] \<and> fit_transform L = sk_fit_transform lower is_word \<and>
          vocabulary (map (analyze lower is_word) (batch_texts L text_pairs)) = [] \<longrightarrow>
            fst (calculate_similarity_batch L c text_pairs) =
              Inl (ValueError ''empty vocabulary; perhaps the documents only contain stop words'')) \<and>
         calculate_similarity_batch (L\<lparr>ratio := r\<rparr>) c text_pairs =
           calculate_similarity_batch L c text_pairs"
proof -
  have 1: "calculate_similarity_batch L c [] = (Inr [], c)"
    by (simp add: calculate_similarity_batch_def)
  have 2: "fst (calculate_similarity_batch L c text_pairs) = Inl e"
    if "text_pairs \<noteq> []" "fit_transform L (batch_texts L text_pairs) = Inl e" for e
    using batch_value[OF assms that(1)] that(2) by (simp add: then_do_def)
  have 3: "fst (calculate_similarity_batch L c text_pairs) =
      Inl (ValueError ''empty vocabulary; perhaps the documents only contain stop words'')"
    if "text_pairs \<noteq> []" "fit_transform L = sk_fit_transform lower is_word"
      "vocabulary (map (analyze lower is_word) (batch_texts L text_pairs)) = []"
    using 2[OF that(1)] sk_fit_transform_empty[OF that(3)] that(2) by simp
  have 4: "calculate_similarity_batch (L\<lparr>ratio := r\<rparr>) c text_pairs =
           calculate_similarity_batch L c text_pairs"
    by (simp add: calculate_similarity_batch_def)
  show ?thesis using 1 2 3 4 by blast
qed

theorem batch_failure_propagates_witness:
  "fst (calculate_similarity_batch sample_libs [] [(PyStr [97], PyStr [98])]) =
     Inl (ValueError ''empty vocabulary; perhaps the documents only contain stop words'') \<and>
   calculate_similarity_batch sample_libs [] [] = (Inr [], [])"
  using batch_failure_propagates[OF cache_ok_Nil, of sample_libs "[(PyStr [97], PyStr [98])]" _
      "\<lambda>s. s" "\<lambda>c. \<not> isspace c"]
  by (simp add: sample_lcut sample_fit_transform batch_texts_def isspace_def
      analyze_def vocabulary_def)

text \<open>
  Claim C3 as stated fails for the empty batch: vectorizing no document at all raises
  (the vocabulary is empty), but \<open>calculate_similarity_batch\<close> returns \<open>[]\<close> before it
  gets there.
\<close>

theorem empty_batch_counterexample:
  "fit_transform sample_libs [] =
     Inl (ValueError ''empty vocabulary; perhaps the documents only contain stop words'') \<and>
   calculate_similarity_batch sample_libs [] [] = (Inr [], [])"
  by (simp add: sample_fit_transform sk_fit_transform_def vocabulary_def
      calculate_similarity_batch_def)

section \<open>The command line and unreadable files\<close>


lemma format_zero: "format_score 0 = ''0.0''"
  by (simp add: format_score_def py_round2_def round_half_even_def py_str_float_def
      py_str_nat.simps digit_char_def Let_def)


lemma main_usage:
  "length argv \<noteq> 4 \<Longrightarrow>
   main L c argv w = (Inr (), c, w\<lparr>stdout := stdout w @ [MsgUsageHead, MsgUsageLine]\<rparr>)"
  by (simp add: main_def print_def)

lemma main_read_failure:
  assumes "length argv = 4" "read_file w (argv ! 1) = (t1, w1)" "read_file w1 (argv ! 2) = (t2, w2)"
    "t1 = PyNone \<or> t2 = PyNone"
  shows "main L c argv w = (Inr (), c, print MsgReadFailed w2)"
  using assms by (auto simp: main_def Let_def)

lemma main_v1_too_few:
  "length argv < 4 \<Longrightarrow>
   main_v1 L argv w = (Inl IndexError, w\<lparr>stdout := stdout w @ [MsgUsageHead, MsgUsageLine]\<rparr>)"
  by (auto simp: main_v1_def Let_def py_index_def then_do_def print_def)

lemma main_v1_too_many:
  "4 < length argv \<Longrightarrow>
   main_v1 L argv w = main_v1 L (take 4 argv) (w\<lparr>stdout := stdout w @ [MsgUsageHead, MsgUsageLine]\<rparr>)"
  by (simp add: main_v1_def Let_def py_index_def then_do_def print_def)



text \<open>
  Claim C5 holds for \<open>main\<close> of \<open>src/3223004469/main.py\<close> (\<open>main_usage\<close>) and fails for
  \<open>main\<close> of \<open>src/main.py\<close>, which prints the usage message and goes on: with one
  argument too many it reads both files and writes the score. Both on the same input:
\<close>

theorem main_v1_writes_after_usage:
  "length [[109], [97], [98], [111], [120::nat]] \<noteq> 4 \<and>
   main_v1 sample_libs [[109], [97], [98], [111], [120]]
     \<lparr>files = [[97] \<mapsto> Utf8File [120, 121], [98] \<mapsto> Utf8File []], unwritable = {}, stdout = []\<rparr> =
     (Inr (), \<lparr>files = [[97] \<mapsto> Utf8File [120, 121], [98] \<mapsto> Utf8File [],
                       [111] \<mapsto> Utf8File (map of_char ''0.0'')],
               unwritable = {}, stdout = [MsgUsageHead, MsgUsageLine]\<rparr>) \<and>
   main sample_libs [] [[109], [97], [98], [111], [120]]
     \<lparr>files = [[97] \<mapsto> Utf8File [120, 121], [98] \<mapsto> Utf8File []], unwritable = {}, stdout = []\<rparr> =
     (Inr (), [], \<lparr>files = [[97] \<mapsto> Utf8File [120, 121], [98] \<mapsto> Utf8File []],
                   unwritable = {}, stdout = [MsgUsageHead, MsgUsageLine]\<rparr>)"
  by (simp add: main_v1_def main_def Let_def py_index_def then_do_def print_def read_file_def
      py_strip_def isspace_def calculate_similarity_v1_def sample_lcut write_result_def format_zero)

text \<open>
  Claim C1 holds for \<open>calculate_similarity\<close> of \<open>src/3223004469/main.py\<close>
  (\<open>single_token_rule\<close>) and fails for the one of \<open>src/main.py\<close>, which has no
  single-token rule: two different one-character texts reach the vectorizer, whose token
  pattern drops every token of one character, and the call raises.
\<close>

theorem single_char_raises_in_v1:
  "calculate_similarity_v1 sample_libs (PyStr [22909]) (PyStr [22351]) =
     Inl (ValueError ''empty vocabulary; perhaps the documents only contain stop words'') \<and>
   fst (calculate_similarity sample_libs [] (PyStr [22909]) (PyStr [22351])) =
     Inr (SequenceMatcher_ratio [22909::nat] [22351])"
proof -
  have "fst (calculate_similarity sample_libs [] (PyStr [22909]) (PyStr [22351])) =
     Inr (SequenceMatcher_ratio [22909::nat] [22351])"
    using single_token_rule[OF cache_ok_Nil, of sample_libs "[22909]" "[22909]" "[22351]" "[22351]"]
    by (simp add: sample_lcut sample_ratio py_split_def isspace_def)
  moreover have "calculate_similarity_v1 sample_libs (PyStr [22909]) (PyStr [22351]) =
     Inl (ValueError ''empty vocabulary; perhaps the documents only contain stop words'')"
    by (simp add: calculate_similarity_v1_def sample_lcut vector_score_def sample_fit_transform
        sk_fit_transform_def analyze_def vocabulary_def isspace_def then_do_def)
  ultimately show ?thesis by simp
qed

section \<open>The sequence ratio and the cosine lie between 0 and 1\<close>

lemma matching_blocks_total:
  "sum_list (map (\<lambda>(i, j, k). k) (matching_blocks a b alo ahi blo bhi)) \<le> min (ahi - alo) (bhi - blo)"
proof (induction a b alo ahi blo bhi rule: matching_blocks.induct)
  case (1 a b alo ahi blo bhi)
  obtain i j k where f: "find_longest_match a b alo ahi blo bhi = (i, j, k)"
    by (cases "find_longest_match a b alo ahi blo bhi") auto
  have ok: "block_ok alo ahi blo bhi (i, j, k)"
    using find_longest_match_ok[of alo ahi blo bhi a b] f by simp
  show ?case
  proof (cases "k = 0")
    case True
    then show ?thesis using f by (subst matching_blocks.simps) simp
  next
    case False
    define left where "left = (if alo < i \<and> blo < j then matching_blocks a b alo i blo j else [])"
    define right where
      "right = (if i + k < ahi \<and> j + k < bhi then matching_blocks a b (i + k) ahi (j + k) bhi else [])"
    have l: "sum_list (map (\<lambda>(i, j, k). k) left) \<le> min (i - alo) (j - blo)"
      using "1.IH"(1)[OF f[symmetric] refl False] by (simp add: left_def)
    have r: "sum_list (map (\<lambda>(i, j, k). k) right) \<le> min (ahi - (i + k)) (bhi - (j + k))"
      using "1.IH"(2)[OF f[symmetric] refl False] by (simp add: right_def)
    have eq: "matching_blocks a b alo ahi blo bhi = (i, j, k) # left @ right"
      using f False by (subst matching_blocks.simps) (simp add: left_def right_def)
    define sl where "sl = sum_list (map (\<lambda>(i, j, k). k) left)"
    define sr where "sr = sum_list (map (\<lambda>(i, j, k). k) right)"
    have b: "alo \<le> i" "blo \<le> j" "i + k \<le> ahi" "j + k \<le> bhi"
      using ok False by (simp_all add: block_ok_def)
    have "k + (sl + sr) \<le> min (ahi - alo) (bhi - blo)"
      using l r b unfolding sl_def[symmetric] sr_def[symmetric] by linarith
    then show ?thesis by (simp add: eq sl_def sr_def)
  qed
qed

lemma SequenceMatcher_ratio_bounds:
  "0 \<le> SequenceMatcher_ratio a b \<and> SequenceMatcher_ratio a b \<le> 1"
proof -
  define m where "m = sum_list (map (\<lambda>(i, j, k). k) (matching_blocks a b 0 (length a) 0 (length b)))"
  have "m \<le> min (length a) (length b)"
    using matching_blocks_total[of a b 0 "length a" 0 "length b"] by (simp add: m_def)
  then have "2 * m \<le> length a + length b" by simp
  then have "2 * real m \<le> real (length a + length b)"
    by (metis of_nat_le_iff of_nat_mult of_nat_numeral)
  then show ?thesis
    by (simp add: SequenceMatcher_ratio_def m_def[symmetric] Let_def divide_le_eq)
qed

lemma dot_Nil [simp]: "dot [] y = 0" "dot x [] = 0"
  by (simp_all add: dot_def)

lemma dot_Cons [simp]: "dot (u # x) (v # y) = u * v + dot x y"
  by (simp add: dot_def)

lemma dot_self_nonneg: "0 \<le> dot x x"
  by (induction x) auto

lemma dot_self_zero: "dot x x = 0 \<longleftrightarrow> (\<forall>v \<in> set x. v = 0)"
proof (induction x)
  case Nil
  then show ?case by simp
next
  case (Cons u x)
  have "u * u + dot x x = 0 \<longleftrightarrow> u = 0 \<and> dot x x = 0"
    using dot_self_nonneg[of x] by (metis add_nonneg_eq_0_iff mult_eq_0_iff zero_le_square)
  then show ?case using Cons by simp
qed


lemma dot_scale: "dot (map (\<lambda>v. v / n) x) (map (\<lambda>v. v / m) y) = dot x y / (n * m)"
  by (induction x y rule: list_induct2') (auto simp: add_divide_distrib)


lemma l2_normalize_unit: "dot x x \<noteq> 0 \<Longrightarrow> dot (l2_normalize x) (l2_normalize x) = 1"
proof -
  assume nz: "dot x x \<noteq> 0"
  then have pos: "0 < dot x x" using dot_self_nonneg[of x] by simp
  then have "sqrt (dot x x) \<noteq> 0" by simp
  moreover have "sqrt (dot x x) * sqrt (dot x x) = dot x x" using pos by simp
  ultimately show ?thesis using nz by (simp add: l2_normalize_def Let_def dot_scale)
qed




lemma l2_normalize_length [simp]: "length (l2_normalize x) = length x"
  by (simp add: l2_normalize_def Let_def)


lemma doc_freq_le: "doc_freq tokenized t \<le> length tokenized"
  by (simp add: doc_freq_def)

lemma idf_ge_1: "df \<le> n \<Longrightarrow> 1 \<le> idf n df"
proof -
  assume "df \<le> n"
  then have "1 \<le> (1 + real n) / (1 + real df)" by (simp add: le_divide_eq)
  then have "0 \<le> ln ((1 + real n) / (1 + real df))" by simp
  then show ?thesis by (simp add: idf_def)
qed


lemma tfidf_row_length [simp]: "length (tfidf_row tokenized vocab toks) = length vocab"
  by (simp add: tfidf_row_def)

lemma set_vocabulary: "set (vocabulary tokenized) = (\<Union>toks \<in> set tokenized. set toks)"
  by (simp add: vocabulary_def)

lemma tfidf_row_unit:
  assumes "t \<in> set vocab" "t \<in> set toks"
  shows "dot (tfidf_row tokenized vocab toks) (tfidf_row tokenized vocab toks) = 1"
proof -
  define w where
    "w = map (\<lambda>t. real (count_list toks t) * idf (length tokenized) (doc_freq tokenized t)) vocab"
  have "count_list toks t \<noteq> 0" using assms(2) count_list_0_iff[of toks t] by simp
  then have "0 < count_list toks t" by simp
  moreover have "0 < idf (length tokenized) (doc_freq tokenized t)"
    using idf_ge_1[OF doc_freq_le, of tokenized t] by simp
  ultimately have "real (count_list toks t) * idf (length tokenized) (doc_freq tokenized t) \<noteq> 0"
    by simp
  then have "\<not> (\<forall>v \<in> set w. v = 0)" using assms(1) by (force simp: w_def)
  then have "dot w w \<noteq> 0" by (simp add: dot_self_zero)
  then show ?thesis unfolding tfidf_row_def w_def[symmetric] by (rule l2_normalize_unit)
qed

section \<open>Scores on the vector path\<close>

lemma installed_simps [simp]:
  "lcut (installed seg lower is_word) = seg"
  "fit_transform (installed seg lower is_word) = sk_fit_transform lower is_word"
  "cosine_similarity (installed seg lower is_word) = sk_cosine_similarity"
  "ratio (installed seg lower is_word) = SequenceMatcher_ratio"
  by (simp_all add: installed_def)

lemma vocabulary_empty_iff: "vocabulary tokenized = [] \<longleftrightarrow> (\<forall>toks \<in> set tokenized. toks = [])"
proof -
  have "vocabulary tokenized = [] \<longleftrightarrow> set (vocabulary tokenized) = {}" by simp
  also have "\<dots> \<longleftrightarrow> (\<forall>toks \<in> set tokenized. toks = [])" by (simp add: set_vocabulary)
  finally show ?thesis .
qed

lemma slice_row: "i < length m \<Longrightarrow> take (Suc 0) (drop i m) = [m ! i]"
proof -
  assume "i < length m"
  then have "drop i m = m ! i # drop (Suc i) m" by (simp add: Cons_nth_drop_Suc)
  then show ?thesis by simp
qed

lemma sk_cosine_of_rows:
  assumes "i < length m" "j < length m" "length (m ! i) = length (m ! j)"
    "cosine_similarity L = sk_cosine_similarity"
  shows "cosine_of_rows L m i j = Inr (dot (l2_normalize (m ! i)) (l2_normalize (m ! j)))"
  using assms
  by (simp add: cosine_of_rows_def slice_row sk_cosine_similarity_def then_do_def item00_def)

lemma sk_vector_score:
  "vector_score (installed seg lower is_word) p q =
     (let tokenized = [analyze lower is_word p, analyze lower is_word q];
          vocab = vocabulary tokenized
      in if vocab = []
         then Inl (ValueError ''empty vocabulary; perhaps the documents only contain stop words'')
         else Inr (dot (l2_normalize (tfidf_row tokenized vocab (analyze lower is_word p)))
                       (l2_normalize (tfidf_row tokenized vocab (analyze lower is_word q)))))"
  by (simp add: vector_score_def sk_fit_transform_def Let_def then_do_def sk_cosine_of_rows)



lemma sk_vector_score_same:
  assumes "vocabulary [analyze lower is_word p, analyze lower is_word p] \<noteq> []"
  shows "vector_score (installed seg lower is_word) p p = Inr 1"
proof -
  define toks where "toks = analyze lower is_word p"
  define vocab where "vocab = vocabulary [toks, toks]"
  have "vocab \<noteq> []" using assms by (simp add: vocab_def toks_def)
  then obtain t where t: "t \<in> set vocab" by (cases vocab) auto
  then have "t \<in> set toks" by (simp add: vocab_def set_vocabulary)
  then have "dot (tfidf_row [toks, toks] vocab toks) (tfidf_row [toks, toks] vocab toks) = 1"
    using t by (intro tfidf_row_unit)
  then have "dot (l2_normalize (tfidf_row [toks, toks] vocab toks))
                 (l2_normalize (tfidf_row [toks, toks] vocab toks)) = 1"
    by (intro l2_normalize_unit) simp
  then show ?thesis using \<open>vocab \<noteq> []\<close>
    by (simp add: sk_vector_score Let_def toks_def[symmetric] vocab_def[symmetric])
qed

text \<open>
  Claim C7. With scikit-learn's vectorizer and cosine (in exact arithmetic), a text
  whose segmented form holds at least two words and gives a vocabulary that is not empty
  scores exactly 1 against itself, in both files, and the score is the one of the vector
  path. The tolerance of the claim covers the rounding of the machine arithmetic, which
  the model does not have.
\<close>

theorem identical_texts_score_one:
  assumes "L = installed seg lower is_word" and "cache_ok L c"
    and "p = cached_preprocess_text_body L (PyStr T)"
    and "2 \<le> length (py_split p)"
    and "vocabulary [analyze lower is_word p, analyze lower is_word p] \<noteq> []"
  shows "fst (calculate_similarity L c (PyStr T) (PyStr T)) = Inr 1 \<and>
         calculate_similarity_v1 L (PyStr T) (PyStr T) = Inr 1 \<and>
         vector_score L p p = Inr 1"
proof -
  have v: "vector_score L p p = Inr 1" using sk_vector_score_same[OF assms(5)] assms(1) by simp
  have ne: "py_split p \<noteq> []" "length (py_split p) \<noteq> 1" using assms(4) by auto
  then have pne: "p \<noteq> []" using py_split_Nil by force
  have "fst (calculate_similarity L c (PyStr T) (PyStr T)) = Inr 1"
    unfolding calculate_similarity_value[OF assms(2)] assms(3)[symmetric]
    using ne pne v by (simp add: similarity_of_def Let_def)
  moreover have "calculate_similarity_v1 L (PyStr T) (PyStr T) = Inr 1"
    using pne v assms(3) by (simp add: calculate_similarity_v1_def Let_def)
  ultimately show ?thesis using v by simp
qed

theorem identical_texts_score_one_witness:
  "fst (calculate_similarity sample_libs [] (PyStr [97, 98, 32, 99, 100]) (PyStr [97, 98, 32, 99, 100])) = Inr 1 \<and>
   calculate_similarity_v1 sample_libs (PyStr [97, 98, 32, 99, 100]) (PyStr [97, 98, 32, 99, 100]) = Inr 1"
  using identical_texts_score_one[OF sample_libs_def cache_ok_Nil refl, of "[97, 98, 32, 99, 100]"]
  by (simp add: sample_lcut py_split_def isspace_def vocabulary_empty_iff analyze_def)

lemma sequence_ratio_bounds:
  "sequence_ratio (installed seg lower is_word) (PyStr x) (PyStr y) = Inr s \<Longrightarrow> 0 \<le> s \<and> s \<le> 1"
  using SequenceMatcher_ratio_bounds[of x y] by auto







section \<open>The formatter\<close>












end
